theory Spec2Isabelle
  imports Main
begin

section \<open>Python strings\<close>

text \<open>
  Python text is modelled as \<open>string\<close>, one \<open>char\<close> per code point, so the model
  covers the code points below 256. Everything the layout command prints is decoded
  with \<open>encoding='ascii'\<close> in \<open>version\<close>, and every member of the capability sets is
  ASCII.
\<close>

definition code :: "char \<Rightarrow> nat" where
  "code c = of_char c"

text \<open>\<open>str.lower\<close>, per code point: \<open>A\<close>..\<open>Z\<close> and the upper-case letters of Latin-1
  (\<open>0xC0\<close>..\<open>0xDE\<close> without the multiplication sign \<open>0xD7\<close>) move up by 32.\<close>

definition lower_char :: "char \<Rightarrow> char" where
  "lower_char c =
     (if (65 \<le> code c \<and> code c \<le> 90) \<or> (192 \<le> code c \<and> code c \<le> 222 \<and> code c \<noteq> 215)
      then char_of (code c + 32) else c)"

definition lower :: "string \<Rightarrow> string" where
  "lower s = map lower_char s"

text \<open>\<open>sep.join(xs)\<close>.\<close>

fun join :: "string \<Rightarrow> string list \<Rightarrow> string" where
  "join sep [] = []"
| "join sep [x] = x"
| "join sep (x # y # ys) = x @ sep @ join sep (y # ys)"

text \<open>\<open>[f for f in xs if f is not None]\<close>.\<close>

fun not_none :: "'a option list \<Rightarrow> 'a list" where
  "not_none [] = []"
| "not_none (None # xs) = not_none xs"
| "not_none (Some x # xs) = x # not_none xs"

text \<open>
  \<open>repr\<close> of a \<open>str\<close> (the \<open>!r\<close> conversion of an f-string): the quote is \<open>'\<close> unless the
  text holds a \<open>'\<close> and no \<open>"\<close>; the quote and the backslash are escaped with a backslash,
  tab, newline and carriage return as \<open>\t\<close>, \<open>\n\<close>, \<open>\r\<close>, and every other code point
  that is not printable as \<open>\xhh\<close>.
\<close>

definition hex_digit :: "nat \<Rightarrow> char" where
  "hex_digit n = ''0123456789abcdef'' ! (n mod 16)"

definition printable :: "char \<Rightarrow> bool" where
  "printable c = ((32 \<le> code c \<and> code c < 127) \<or> (161 \<le> code c \<and> code c \<noteq> 173))"

definition repr_char :: "char \<Rightarrow> char \<Rightarrow> string" where
  "repr_char quote c =
     (if c = quote \<or> c = CHR 0x5C then [CHR 0x5C, c]
      else if c = CHR 0x09 then [CHR 0x5C, CHR ''t'']
      else if c = CHR 0x0A then [CHR 0x5C, CHR ''n'']
      else if c = CHR 0x0D then [CHR 0x5C, CHR ''r'']
      else if \<not> printable c
        then [CHR 0x5C, CHR ''x'', hex_digit (code c div 16), hex_digit (code c)]
      else [c])"

definition repr :: "string \<Rightarrow> string" where
  "repr s =
     (let quote = (if CHR 0x27 \<in> set s \<and> CHR 0x22 \<notin> set s then CHR 0x22 else CHR 0x27)
      in [quote] @ concat (map (repr_char quote) s) @ [quote])"

section \<open>Capability sets\<close>

definition ENGINES :: "string set" where
  "ENGINES = {''dot'', ''neato'', ''twopi'', ''circo'', ''fdp'', ''sfdp'', ''patchwork'',
     ''osage''}"

definition FORMATS :: "string set" where
  "FORMATS = {''bmp'',
     ''canon'', ''dot'', ''gv'', ''xdot'', ''xdot1.2'', ''xdot1.4'',
     ''cgimage'',
     ''cmap'',
     ''eps'',
     ''exr'',
     ''fig'',
     ''gd'', ''gd2'',
     ''gif'',
     ''gtk'',
     ''ico'',
     ''imap'', ''cmapx'',
     ''imap_np'', ''cmapx_np'',
     ''ismap'',
     ''jp2'',
     ''jpg'', ''jpeg'', ''jpe'',
     ''json'', ''json0'', ''dot_json'', ''xdot_json'',
     ''pct'', ''pict'',
     ''pdf'',
     ''pic'',
     ''plain'', ''plain-ext'',
     ''png'',
     ''pov'',
     ''ps'',
     ''ps2'',
     ''psd'',
     ''sgi'',
     ''svg'', ''svgz'',
     ''tga'',
     ''tif'', ''tiff'',
     ''tk'',
     ''vml'', ''vmlz'',
     ''vrml'',
     ''wbmp'',
     ''webp'',
     ''xlib'',
     ''x11''}"

definition RENDERERS :: "string set" where
  "RENDERERS = {''cairo'', ''dot'', ''fig'', ''gd'', ''gdiplus'', ''map'', ''pic'', ''pov'',
     ''ps'', ''svg'', ''tk'', ''vml'', ''vrml'', ''xdot''}"

definition FORMATTERS :: "string set" where
  "FORMATTERS = {''cairo'', ''core'', ''gd'', ''gdiplus'', ''gdwbmp'', ''xlib''}"

section \<open>Errors and commands\<close>

text \<open>
  An element of a \<open>subprocess.Popen\<close> argument list is a path or a string.
\<close>

datatype arg = Path string | Str string

text \<open>
  The exceptions of the backend, as values. \<open>RequiredArgumentError\<close>, \<open>ValueError\<close> and
  \<open>RuntimeError\<close> carry their message. \<open>ExecutableNotFound\<close> (with the argument list)
  and \<open>CalledProcessError\<close> (return code, argument list, captured standard error) are
  the two raised by \<open>run_check\<close>.
\<close>

datatype error =
    RequiredArgumentError string
  | ValueError string
  | RuntimeError string
  | ExecutableNotFound "arg list"
  | CalledProcessError int "arg list" string

definition DOT_BINARY :: arg where
  "DOT_BINARY = Path ''dot''"

text \<open>\<open>command(engine, format_, *, renderer=None, formatter=None)\<close>.\<close>

definition command :: "string \<Rightarrow> string \<Rightarrow> string option \<Rightarrow> string option \<Rightarrow> error + arg list" where
  "command engine format renderer formatter =
     (if formatter \<noteq> None \<and> renderer = None
        then Inl (RequiredArgumentError ''formatter given without renderer'')
      else if engine \<notin> ENGINES
        then Inl (ValueError (''unknown engine: '' @ repr engine))
      else if format \<notin> FORMATS
        then Inl (ValueError (''unknown format: '' @ repr format))
      else if (case renderer of None \<Rightarrow> False | Some r \<Rightarrow> r \<notin> RENDERERS)
        then Inl (ValueError (''unknown renderer: '' @ repr (the renderer)))
      else if (case formatter of None \<Rightarrow> False | Some f \<Rightarrow> f \<notin> FORMATTERS)
        then Inl (ValueError (''unknown formatter: '' @ repr (the formatter)))
      else
        let output_format = not_none [Some format, renderer, formatter];
            output_format_flag = join '':'' output_format
        in Inr [DOT_BINARY, Str (''-K'' @ engine), Str (''-T'' @ output_format_flag)])"

section \<open>Regular expressions\<close>

text \<open>
  The part of Python's \<open>re\<close> that the version pattern uses: literal characters, the
  class \<open>\d\<close> under \<open>+\<close> and under \<open>{n}\<close>, concatenation, alternation \<open>|\<close>, the greedy
  option \<open>(?:...)?\<close> and numbered capturing groups. On the ASCII text that \<open>version\<close>
  searches, \<open>\d\<close> is \<open>0\<close>..\<open>9\<close>.
\<close>

datatype cls = Digit

datatype regex =
    Eps
  | Chars string
  | Many1 cls
  | Exactly nat cls
  | Seq regex regex
  | Alt regex regex
  | Opt regex
  | Group nat regex

definition seq :: "regex list \<Rightarrow> regex" where
  "seq rs = foldr Seq rs Eps"

fun in_cls :: "cls \<Rightarrow> char \<Rightarrow> bool" where
  "in_cls Digit c = (48 \<le> code c \<and> code c \<le> 57)"

text \<open>\<open>strip cs s\<close>: the rest of \<open>s\<close> after the literal \<open>cs\<close>, if \<open>s\<close> starts with it.\<close>

fun strip :: "string \<Rightarrow> string \<Rightarrow> string option" where
  "strip [] s = Some s"
| "strip (c # cs) [] = None"
| "strip (c # cs) (d # ds) = (if c = d then strip cs ds else None)"

text \<open>
  The rests of \<open>s\<close> after one or more characters of the class, in the order a
  backtracking matcher tries them: the longest run first, then one character less
  at a time.
\<close>

fun many1 :: "(char \<Rightarrow> bool) \<Rightarrow> string \<Rightarrow> string list" where
  "many1 p [] = []"
| "many1 p (c # cs) = (if p c then many1 p cs @ [cs] else [])"

text \<open>
  A matcher state is the rest of the text and the groups captured so far. \<open>matches r st\<close>
  lists the states in which \<open>r\<close> can end when started in \<open>st\<close>, in the order in which
  backtracking explores them: the first one is the one \<open>re\<close> reports.
\<close>

type_synonym groups = "nat \<rightharpoonup> string"

fun matches :: "regex \<Rightarrow> string \<times> groups \<Rightarrow> (string \<times> groups) list" where
  "matches Eps st = [st]"
| "matches (Chars cs) (s, g) = (case strip cs s of None \<Rightarrow> [] | Some s' \<Rightarrow> [(s', g)])"
| "matches (Many1 cl) (s, g) = map (\<lambda>s'. (s', g)) (many1 (in_cls cl) s)"
| "matches (Exactly n cl) (s, g) =
     (if n \<le> length s \<and> list_all (in_cls cl) (take n s) then [(drop n s, g)] else [])"
| "matches (Seq a b) st = concat (map (matches b) (matches a st))"
| "matches (Alt a b) st = matches a st @ matches b st"
| "matches (Opt a) st = matches a st @ [st]"
| "matches (Group i a) (s, g) =
     map (\<lambda>(s', g'). (s', g'(i \<mapsto> take (length s - length s') s))) (matches a (s, g))"

text \<open>
  \<open>re.search(pattern, text)\<close>: the match at the leftmost start position that has one;
  the result is the captured groups, \<open>None\<close> when no position matches.
\<close>

fun search :: "regex \<Rightarrow> string \<Rightarrow> groups option" where
  "search r [] = (case matches r ([], Map.empty) of [] \<Rightarrow> None | (s', g) # _ \<Rightarrow> Some g)"
| "search r (c # cs) =
     (case matches r (c # cs, Map.empty) of [] \<Rightarrow> search r cs | (s', g) # _ \<Rightarrow> Some g)"

text \<open>\<open>ma.groups()\<close> of a pattern with \<open>n\<close> groups.\<close>

definition groups :: "nat \<Rightarrow> groups \<Rightarrow> string option list" where
  "groups n g = map g [1 ..< Suc n]"

text \<open>\<open>int(d)\<close> on a string of ASCII digits.\<close>

definition py_int :: "string \<Rightarrow> int" where
  "py_int d = foldl (\<lambda>a c. 10 * a + (int (code c) - 48)) 0 d"

section \<open>Version query\<close>

text \<open>
  What the code passes to \<open>run_check\<close> besides the argument list (a keyword that a call
  does not pass is \<open>None\<close>), and what it reads from the result. Bytes and text are both
  \<open>string\<close>. The lazily produced lines of \<open>pipe_lines\<close> are passed on unevaluated:
  \<open>Encode enc lines\<close> is the generator \<open>(line.encode(enc) for line in lines)\<close>.
\<close>

datatype lines = Lines "string list" | Encode string "string list"

datatype stream = PIPE | STDOUT

record kwargs =
  capture_output :: "bool option"
  cwd :: "string option option"
  quiet :: "bool option"
  input :: "string option"
  input_lines :: "lines option"
  encoding :: "string option"
  stdout_kw :: "stream option"
  stderr_kw :: "stream option"

definition no_kwargs :: kwargs where
  "no_kwargs = \<lparr>capture_output = None, cwd = None, quiet = None, input = None,
     input_lines = None, encoding = None, stdout_kw = None, stderr_kw = None\<rparr>"

record completed_process =
  stdout :: string

text \<open>
  \<open>run_check\<close> is defined in \<open>backend/running.py\<close>; the functions of this module take it
  as a parameter.
\<close>

type_synonym runner = "arg list \<Rightarrow> kwargs \<Rightarrow> error + completed_process"

text \<open>
  The runner of the tests: \<open>run\<close> is mocked to return a \<open>CompletedProcess\<close> with return code
  0 and the given standard output, so \<open>run_check\<close> returns it.
\<close>

definition mocked :: "string \<Rightarrow> runner" where
  "mocked out cmd kw = Inr \<lparr>stdout = out\<rparr>"

text \<open>\<open>repr\<close> of an argument list; a \<open>pathlib.Path\<close> prints as \<open>PosixPath('...')\<close>.\<close>

fun repr_arg :: "arg \<Rightarrow> string" where
  "repr_arg (Path p) = ''PosixPath('' @ repr p @ '')''"
| "repr_arg (Str s) = repr s"

definition repr_list :: "arg list \<Rightarrow> string" where
  "repr_list xs = ''['' @ join '', '' (map repr_arg xs) @ '']''"

definition version_pattern :: regex where
  "version_pattern =
     seq [Chars ''graphviz version'',
          Chars '' '',
          Group 1 (Many1 Digit), Chars ''.'', Group 2 (Many1 Digit),
          Opt (seq [Chars ''.'', Group 3 (Many1 Digit),
                    Opt (Alt (seq [Chars ''~dev.'', Exactly 8 Digit, Chars ''.'', Exactly 4 Digit])
                             (seq [Chars ''.'', Group 4 (Many1 Digit)]))]),
          Chars '' '']"

definition version :: "runner \<Rightarrow> error + int list" where
  "version run_check =
     (let cmd = [DOT_BINARY, Str ''-V'']
      in case run_check cmd (no_kwargs\<lparr>stdout_kw := Some PIPE, stderr_kw := Some STDOUT,
                                        encoding := Some ''ascii''\<rparr>) of
           Inl e \<Rightarrow> Inl e
         | Inr proc \<Rightarrow>
             (case search version_pattern (stdout proc) of
                None \<Rightarrow> Inl (RuntimeError (''cannot parse '' @ repr_list cmd @ '' output: ''
                                             @ repr (stdout proc)))
              | Some ma \<Rightarrow> Inr (map py_int (not_none (groups 4 ma)))))"

section \<open>Rendering\<close>

text \<open>
  \<open>os.path.split\<close> and \<open>os.path.join\<close> (with two arguments) of \<open>posixpath\<close>: the
  separator is \<open>/\<close>. \<open>path_split\<close> cuts behind the last separator and strips the
  trailing separators of the head, unless the head consists of separators only.
\<close>

definition sep :: char where
  "sep = CHR ''/''"

definition rstrip_sep :: "string \<Rightarrow> string" where
  "rstrip_sep s = rev (dropWhile (\<lambda>c. c = sep) (rev s))"

definition path_split :: "string \<Rightarrow> string \<times> string" where
  "path_split p =
     (let i = length (dropWhile (\<lambda>c. c \<noteq> sep) (rev p));
          head = take i p;
          tail = drop i p
      in (if head \<noteq> [] \<and> head \<noteq> replicate (length head) sep then rstrip_sep head else head,
          tail))"

definition path_join :: "string \<Rightarrow> string \<Rightarrow> string" where
  "path_join a b =
     (if b \<noteq> [] \<and> hd b = sep then b
      else if a = [] \<or> last a = sep then a @ b
      else a @ [sep] @ b)"

text \<open>\<open>render(engine, format, filepath, renderer=None, formatter=None, quiet=False)\<close>.\<close>

definition render ::
  "runner \<Rightarrow> string \<Rightarrow> string \<Rightarrow> string \<Rightarrow> string option \<Rightarrow> string option \<Rightarrow> bool
     \<Rightarrow> error + string" where
  "render run_check engine format filepath renderer formatter quiet' =
     (let (dirname, filename) = path_split filepath
      in (case command engine format renderer formatter of
            Inl e \<Rightarrow> Inl e
          | Inr cmd0 \<Rightarrow>
              (let cmd = cmd0 @ [Str ''-O'', Str filename];
                   suffix = join ''.'' (not_none [formatter, renderer, Some format]);
                   rendered0 = filename @ ''.'' @ suffix;
                   cwd' = (if dirname \<noteq> [] then Some dirname else None);
                   rendered = (if dirname \<noteq> [] then path_join dirname rendered0 else rendered0)
               in (case run_check cmd (no_kwargs\<lparr>capture_output := Some True, cwd := Some cwd',
                                                  quiet := Some quiet'\<rparr>) of
                     Inl e \<Rightarrow> Inl e
                   | Inr proc \<Rightarrow> Inr rendered))))"

text \<open>\<open>pipe(engine, format, data, renderer=None, formatter=None, quiet=False)\<close>.\<close>

definition pipe ::
  "runner \<Rightarrow> string \<Rightarrow> string \<Rightarrow> string \<Rightarrow> string option \<Rightarrow> string option \<Rightarrow> bool
     \<Rightarrow> error + string" where
  "pipe run_check engine format data renderer formatter quiet' =
     (case command engine format renderer formatter of
        Inl e \<Rightarrow> Inl e
      | Inr cmd \<Rightarrow>
          (case run_check cmd (no_kwargs\<lparr>capture_output := Some True, quiet := Some quiet',
                                          input := Some data\<rparr>) of
             Inl e \<Rightarrow> Inl e
           | Inr proc \<Rightarrow> Inr (stdout proc)))"

text \<open>\<open>pipe_string(engine, format, input_string, *, encoding, renderer=None,
  formatter=None, quiet=False)\<close>.\<close>

definition pipe_string ::
  "runner \<Rightarrow> string \<Rightarrow> string \<Rightarrow> string \<Rightarrow> string \<Rightarrow> string option \<Rightarrow> string option \<Rightarrow> bool
     \<Rightarrow> error + string" where
  "pipe_string run_check engine format input_string encoding' renderer formatter quiet' =
     (case command engine format renderer formatter of
        Inl e \<Rightarrow> Inl e
      | Inr cmd \<Rightarrow>
          (case run_check cmd (no_kwargs\<lparr>capture_output := Some True, quiet := Some quiet',
                                          input := Some input_string,
                                          encoding := Some encoding'\<rparr>) of
             Inl e \<Rightarrow> Inl e
           | Inr proc \<Rightarrow> Inr (stdout proc)))"

text \<open>\<open>pipe_lines(engine, format, input_lines, *, input_encoding, renderer=None,
  formatter=None, quiet=False)\<close>.\<close>

definition pipe_lines ::
  "runner \<Rightarrow> string \<Rightarrow> string \<Rightarrow> string list \<Rightarrow> string \<Rightarrow> string option \<Rightarrow> string option
     \<Rightarrow> bool \<Rightarrow> error + string" where
  "pipe_lines run_check engine format input_lines' input_encoding renderer formatter quiet' =
     (case command engine format renderer formatter of
        Inl e \<Rightarrow> Inl e
      | Inr cmd \<Rightarrow>
          (case run_check cmd (no_kwargs\<lparr>capture_output := Some True, quiet := Some quiet',
                                          input_lines := Some (Encode input_encoding input_lines')\<rparr>) of
             Inl e \<Rightarrow> Inl e
           | Inr proc \<Rightarrow> Inr (stdout proc)))"

text \<open>\<open>pipe_lines_string(engine, format, input_lines, *, encoding, renderer=None,
  formatter=None, quiet=False)\<close>.\<close>

definition pipe_lines_string ::
  "runner \<Rightarrow> string \<Rightarrow> string \<Rightarrow> string list \<Rightarrow> string \<Rightarrow> string option \<Rightarrow> string option
     \<Rightarrow> bool \<Rightarrow> error + string" where
  "pipe_lines_string run_check engine format input_lines' encoding' renderer formatter quiet' =
     (case command engine format renderer formatter of
        Inl e \<Rightarrow> Inl e
      | Inr cmd \<Rightarrow>
          (case run_check cmd (no_kwargs\<lparr>capture_output := Some True, quiet := Some quiet',
                                          input_lines := Some (Lines input_lines'),
                                          encoding := Some encoding'\<rparr>) of
             Inl e \<Rightarrow> Inl e
           | Inr proc \<Rightarrow> Inr (stdout proc)))"

section \<open>The Graphviz class and the default configuration\<close>

text \<open>
  The class attributes \<open>_engine\<close>, \<open>_format\<close>, \<open>_renderer\<close>, \<open>_formatter\<close> of \<open>Graphviz\<close>,
  and the entries of the same names in the \<open>__dict__\<close> of an instance (\<open>None\<close>: the
  instance has no entry, and reading the attribute finds the class attribute).
\<close>

record Graphviz_class =
  class_engine :: string
  class_format :: string
  class_renderer :: "string option"
  class_formatter :: "string option"

definition Graphviz_class0 :: Graphviz_class where
  "Graphviz_class0 = \<lparr>class_engine = ''dot'', class_format = ''pdf'', class_renderer = None,
     class_formatter = None\<rparr>"

record Graphviz =
  dict_engine :: "string option"
  dict_format :: "string option"
  dict_renderer :: "string option"
  dict_formatter :: "string option"

definition new_instance :: Graphviz where
  "new_instance = \<lparr>dict_engine = None, dict_format = None, dict_renderer = None,
     dict_formatter = None\<rparr>"

text \<open>The property getters.\<close>

definition engine_getter :: "Graphviz_class \<Rightarrow> Graphviz \<Rightarrow> string" where
  "engine_getter cls self = (case dict_engine self of Some e \<Rightarrow> e | None \<Rightarrow> class_engine cls)"

definition format_getter :: "Graphviz_class \<Rightarrow> Graphviz \<Rightarrow> string" where
  "format_getter cls self = (case dict_format self of Some f \<Rightarrow> f | None \<Rightarrow> class_format cls)"

definition renderer_getter :: "Graphviz_class \<Rightarrow> Graphviz \<Rightarrow> string option" where
  "renderer_getter cls self = (case dict_renderer self of Some r \<Rightarrow> Some r | None \<Rightarrow> class_renderer cls)"

definition formatter_getter :: "Graphviz_class \<Rightarrow> Graphviz \<Rightarrow> string option" where
  "formatter_getter cls self =
     (case dict_formatter self of Some f \<Rightarrow> Some f | None \<Rightarrow> class_formatter cls)"

text \<open>
  The property setters: the raised error, if any, and the instance after the
  assignment statement.
\<close>

definition engine_setter :: "Graphviz \<Rightarrow> string \<Rightarrow> error option \<times> Graphviz" where
  "engine_setter self engine' =
     (let engine' = lower engine'
      in if engine' \<notin> ENGINES
           then (Some (ValueError (''unknown engine: '' @ repr engine')), self)
         else (None, self\<lparr>dict_engine := Some engine'\<rparr>))"

definition format_setter :: "Graphviz \<Rightarrow> string \<Rightarrow> error option \<times> Graphviz" where
  "format_setter self format' =
     (let format' = lower format'
      in if format' \<notin> FORMATS
           then (Some (ValueError (''unknown format: '' @ repr format')), self)
         else (None, self\<lparr>dict_format := Some format'\<rparr>))"

definition renderer_setter :: "Graphviz \<Rightarrow> string option \<Rightarrow> error option \<times> Graphviz" where
  "renderer_setter self renderer' =
     (case renderer' of
        None \<Rightarrow> (None, self\<lparr>dict_renderer := None\<rparr>)
      | Some r \<Rightarrow>
          let r = lower r
          in if r \<notin> RENDERERS
               then (Some (ValueError (''unknown renderer: '' @ repr r)), self)
             else (None, self\<lparr>dict_renderer := Some r\<rparr>))"

definition formatter_setter :: "Graphviz \<Rightarrow> string option \<Rightarrow> error option \<times> Graphviz" where
  "formatter_setter self formatter' =
     (case formatter' of
        None \<Rightarrow> (None, self\<lparr>dict_formatter := None\<rparr>)
      | Some f \<Rightarrow>
          let f = lower f
          in if f \<notin> FORMATTERS
               then (Some (ValueError (''unknown formatter: '' @ repr f)), self)
             else (None, self\<lparr>dict_formatter := Some f\<rparr>))"

text \<open>
  \<open>Graphviz.__init__(format=None, engine=None, *, renderer=None, formatter=None)\<close>: the
  assignments in the order of the source; the first one that raises ends the
  construction. (The remaining keyword arguments go to the base class of
  \<open>copying.py\<close>.)
\<close>

definition init ::
  "string option \<Rightarrow> string option \<Rightarrow> string option \<Rightarrow> string option \<Rightarrow> error + Graphviz" where
  "init format' engine' renderer' formatter' =
     (let self = new_instance
      in case (case format' of None \<Rightarrow> (None, self) | Some f \<Rightarrow> format_setter self f) of
           (Some e, _) \<Rightarrow> Inl e
         | (None, self) \<Rightarrow>
      (case (case engine' of None \<Rightarrow> (None, self) | Some e \<Rightarrow> engine_setter self e) of
           (Some e, _) \<Rightarrow> Inl e
         | (None, self) \<Rightarrow>
      (case renderer_setter self renderer' of
           (Some e, _) \<Rightarrow> Inl e
         | (None, self) \<Rightarrow>
      (case formatter_setter self formatter' of
           (Some e, _) \<Rightarrow> Inl e
         | (None, self) \<Rightarrow> Inr self))))"

text \<open>\<open>_get_backend_kwargs(format=None, renderer=None, formatter=None)\<close>: what a request
  of the instance passes to the backend.\<close>

definition get_backend_kwargs ::
  "Graphviz_class \<Rightarrow> Graphviz \<Rightarrow> string option \<Rightarrow> string option \<Rightarrow> string option
     \<Rightarrow> string \<times> string option \<times> string option" where
  "get_backend_kwargs cls self format' renderer' formatter' =
     (case format' of None \<Rightarrow> format_getter cls self | Some f \<Rightarrow> f,
      case renderer' of None \<Rightarrow> renderer_getter cls self | Some r \<Rightarrow> Some r,
      case formatter' of None \<Rightarrow> formatter_getter cls self | Some f \<Rightarrow> Some f)"

text \<open>\<open>set_default_engine\<close> and \<open>set_default_format\<close>: the result (the previous default, or
  the error raised) and the class after the call.\<close>

definition set_default_engine :: "string \<Rightarrow> Graphviz_class \<Rightarrow> (error + string) \<times> Graphviz_class" where
  "set_default_engine engine' cls =
     (if engine' \<notin> ENGINES
        then (Inl (ValueError (''unknown engine: '' @ repr engine')), cls)
      else
        let old_default_engine = class_engine cls
        in (Inr old_default_engine, cls\<lparr>class_engine := engine'\<rparr>))"

definition set_default_format :: "string \<Rightarrow> Graphviz_class \<Rightarrow> (error + string) \<times> Graphviz_class" where
  "set_default_format format' cls =
     (if format' \<notin> FORMATS
        then (Inl (ValueError (''unknown format: '' @ repr format')), cls)
      else
        let old_default_format = class_format cls
        in (Inr old_default_format, cls\<lparr>class_format := format'\<rparr>))"

text \<open>
  The statements that change the configuration after an instance exists, and the
  class and the instance after a statement has run (whether or not it raised).
\<close>

datatype statement =
    Assign_engine string
  | Assign_format string
  | Assign_renderer "string option"
  | Assign_formatter "string option"
  | Set_default_engine string
  | Set_default_format string

fun exec :: "statement \<Rightarrow> Graphviz_class \<times> Graphviz \<Rightarrow> Graphviz_class \<times> Graphviz" where
  "exec (Assign_engine v) (cls, self) = (cls, snd (engine_setter self v))"
| "exec (Assign_format v) (cls, self) = (cls, snd (format_setter self v))"
| "exec (Assign_renderer v) (cls, self) = (cls, snd (renderer_setter self v))"
| "exec (Assign_formatter v) (cls, self) = (cls, snd (formatter_setter self v))"
| "exec (Set_default_engine v) (cls, self) = (snd (set_default_engine v cls), self)"
| "exec (Set_default_format v) (cls, self) = (snd (set_default_format v cls), self)"

fun exec_all :: "statement list \<Rightarrow> Graphviz_class \<times> Graphviz \<Rightarrow> Graphviz_class \<times> Graphviz" where
  "exec_all [] st = st"
| "exec_all (x # xs) st = exec_all xs (exec x st)"

text \<open>
  The configuration invariant: the class defaults, and what the four properties of an
  instance read, are lower-case members of their capability sets (or \<open>None\<close> for renderer
  and formatter).
\<close>

definition lower_member :: "string set \<Rightarrow> string \<Rightarrow> bool" where
  "lower_member A v = (v \<in> A \<and> lower v = v)"

definition class_ok :: "Graphviz_class \<Rightarrow> bool" where
  "class_ok cls =
     (lower_member ENGINES (class_engine cls) \<and> lower_member FORMATS (class_format cls)
      \<and> class_renderer cls = None \<and> class_formatter cls = None)"

definition config_ok :: "Graphviz_class \<Rightarrow> Graphviz \<Rightarrow> bool" where
  "config_ok cls self =
     (lower_member ENGINES (engine_getter cls self) \<and> lower_member FORMATS (format_getter cls self)
      \<and> (case renderer_getter cls self of None \<Rightarrow> True | Some r \<Rightarrow> lower_member RENDERERS r)
      \<and> (case formatter_getter cls self of None \<Rightarrow> True | Some f \<Rightarrow> lower_member FORMATTERS f))"

text \<open>The same for the \<open>__dict__\<close> of an instance alone.\<close>

definition dict_ok :: "Graphviz \<Rightarrow> bool" where
  "dict_ok self =
     ((\<forall>v. dict_engine self = Some v \<longrightarrow> lower_member ENGINES v)
      \<and> (\<forall>v. dict_format self = Some v \<longrightarrow> lower_member FORMATS v)
      \<and> (\<forall>v. dict_renderer self = Some v \<longrightarrow> lower_member RENDERERS v)
      \<and> (\<forall>v. dict_formatter self = Some v \<longrightarrow> lower_member FORMATTERS v))"

section \<open>Auxiliary notions for the proofs\<close>

text \<open>
  The groups that every match of a pattern sets; the patterns all of whose groups
  are \<open>(\d+)\<close>; the non-empty strings of ASCII digits.
\<close>

fun sets_groups :: "regex \<Rightarrow> nat set" where
  "sets_groups (Seq a b) = sets_groups a \<union> sets_groups b"
| "sets_groups (Alt a b) = sets_groups a \<inter> sets_groups b"
| "sets_groups (Group i a) = insert i (sets_groups a)"
| "sets_groups r = {}"

fun digit_groups :: "regex \<Rightarrow> bool" where
  "digit_groups (Seq a b) = (digit_groups a \<and> digit_groups b)"
| "digit_groups (Alt a b) = (digit_groups a \<and> digit_groups b)"
| "digit_groups (Opt a) = digit_groups a"
| "digit_groups (Group i a) = (a = Many1 Digit)"
| "digit_groups r = True"

definition digits :: "string \<Rightarrow> bool" where
  "digits d = (d \<noteq> [] \<and> list_all (in_cls Digit) d)"

text \<open>\<open>needle in hay\<close> on strings: \<open>needle\<close> occurs in \<open>hay\<close> as it is.\<close>

fun contains :: "string \<Rightarrow> string \<Rightarrow> bool" where
  "contains [] needle = (needle = [])"
| "contains (c # cs) needle = (strip needle (c # cs) \<noteq> None \<or> contains cs needle)"



section \<open>Properties of the capability sets\<close>

lemma code_lower_char:
  "code (lower_char c) =
     (if (65 \<le> code c \<and> code c \<le> 90) \<or> (192 \<le> code c \<and> code c \<le> 222 \<and> code c \<noteq> 215)
      then code c + 32 else code c)"
  by (auto simp: lower_char_def code_def)

lemma lower_char_idem: "lower_char (lower_char c) = lower_char c"
proof (cases "(65 \<le> code c \<and> code c \<le> 90) \<or> (192 \<le> code c \<and> code c \<le> 222 \<and> code c \<noteq> 215)")
  case True
  then have "code (lower_char c) = code c + 32" by (simp add: code_lower_char)
  with True have "lower_char (lower_char c) = lower_char c"
    unfolding lower_char_def[of "lower_char c"] by auto
  then show ?thesis .
next
  case False
  then have "lower_char c = c" unfolding lower_char_def by (rule if_not_P)
  then show ?thesis by simp
qed

lemma lower_idem: "lower (lower s) = lower s"
  by (simp add: lower_def lower_char_idem)

lemma ENGINES_lower: "v \<in> ENGINES \<Longrightarrow> lower v = v"
  unfolding ENGINES_def by (elim insertE emptyE; simp add: lower_def lower_char_def code_def)

lemma FORMATS_lower: "v \<in> FORMATS \<Longrightarrow> lower v = v"
  unfolding FORMATS_def by (elim insertE emptyE; simp add: lower_def lower_char_def code_def)

lemma RENDERERS_lower: "v \<in> RENDERERS \<Longrightarrow> lower v = v"
  unfolding RENDERERS_def by (elim insertE emptyE; simp add: lower_def lower_char_def code_def)

lemma FORMATTERS_lower: "v \<in> FORMATTERS \<Longrightarrow> lower v = v"
  unfolding FORMATTERS_def by (elim insertE emptyE; simp add: lower_def lower_char_def code_def)

section \<open>The command builder\<close>



text \<open>
  Claim C3. Whatever the engine and the format, \<open>command\<close> with a formatter and no
  renderer fails with the argument error \<open>RequiredArgumentError\<close>; it returns no command.
\<close>

theorem command_without_renderer:
  "command engine format None (Some formatter) =
     Inl (RequiredArgumentError ''formatter given without renderer'')"
  by (simp add: command_def)

text \<open>
  Claim C8. In \<open>command\<close> the check for a formatter without a renderer comes before every
  membership check: with a formatter and no renderer the result is the argument error
  \<open>RequiredArgumentError\<close> also when the engine, the format or the formatter is outside
  its capability set, a call that fails with the unknown-capability \<open>ValueError\<close> as
  soon as a renderer is given.
\<close>

theorem argument_error_first:
  assumes "engine \<notin> ENGINES \<or> format \<notin> FORMATS \<or> formatter \<notin> FORMATTERS"
  shows "command engine format None (Some formatter) =
           Inl (RequiredArgumentError ''formatter given without renderer'')
         \<and> (\<exists>msg. command engine format (Some renderer) (Some formatter) = Inl (ValueError msg))"
  using assms by (auto simp: command_def)

theorem argument_error_first_witness:
  "''nope'' \<notin> ENGINES
   \<and> command ''nope'' ''nope'' None (Some ''nope'') =
         Inl (RequiredArgumentError ''formatter given without renderer'')
   \<and> (\<exists>msg. command ''nope'' ''nope'' (Some ''cairo'') (Some ''nope'') = Inl (ValueError msg))"
  using argument_error_first [of "''nope''" "''nope''" "''nope''" "''cairo''"]
  by (simp add: ENGINES_def)

text \<open>
  Claim C1, as the code has it. \<open>command\<close>, \<open>set_default_engine\<close> and
  \<open>set_default_format\<close> test the value itself for membership. The stated claim, that an
  upper-case spelling validates as its lower-case one does, fails there: \<open>DOT\<close> is
  rejected and \<open>dot\<close> is accepted.
\<close>

theorem upper_case_rejected:
  "lower ''DOT'' = ''dot''
   \<and> command ''dot'' ''pdf'' None None = Inr [Path ''dot'', Str ''-Kdot'', Str ''-Tpdf'']
   \<and> command ''DOT'' ''pdf'' None None =
        Inl (ValueError (''unknown engine: '' @ [CHR 0x27] @ ''DOT'' @ [CHR 0x27]))
   \<and> fst (set_default_engine ''dot'' Graphviz_class0) = Inr ''dot''
   \<and> set_default_engine ''DOT'' Graphviz_class0 =
        (Inl (ValueError (''unknown engine: '' @ [CHR 0x27] @ ''DOT'' @ [CHR 0x27])), Graphviz_class0)"
  by code_simp

lemma command_succeeds_iff:
  "(\<exists>cmd. command e f r fm = Inr cmd) \<longleftrightarrow>
     ((fm = None \<or> r \<noteq> None) \<and> e \<in> ENGINES \<and> f \<in> FORMATS
      \<and> (\<forall>x. r = Some x \<longrightarrow> x \<in> RENDERERS) \<and> (\<forall>x. fm = Some x \<longrightarrow> x \<in> FORMATTERS))"
  by (cases r; cases fm) (auto simp: command_def)

text \<open>
  Claim C1, amended. Validation in \<open>command\<close>, \<open>set_default_engine\<close> and
  \<open>set_default_format\<close> is exact membership: a call succeeds exactly when each value
  given is itself in its capability set (and no formatter comes without a renderer).
  Every member of the four sets is lower case, so a spelling with an upper-case letter
  is rejected. Lower-casing before the membership check is what the property setters of
  \<open>Graphviz\<close> do: there a value and its lower-case spelling behave alike.
\<close>

theorem validation_exact:
  "((\<exists>cmd. command e f r fm = Inr cmd) \<longleftrightarrow>
     ((fm = None \<or> r \<noteq> None) \<and> e \<in> ENGINES \<and> f \<in> FORMATS
      \<and> (\<forall>x. r = Some x \<longrightarrow> x \<in> RENDERERS) \<and> (\<forall>x. fm = Some x \<longrightarrow> x \<in> FORMATTERS)))
   \<and> ((\<exists>old. fst (set_default_engine e cls) = Inr old) \<longleftrightarrow> e \<in> ENGINES)
   \<and> ((\<exists>old. fst (set_default_format f cls) = Inr old) \<longleftrightarrow> f \<in> FORMATS)
   \<and> (\<forall>v. lower v \<noteq> v \<longrightarrow> v \<notin> ENGINES \<and> v \<notin> FORMATS \<and> v \<notin> RENDERERS \<and> v \<notin> FORMATTERS)
   \<and> engine_setter self e = engine_setter self (lower e)
   \<and> format_setter self f = format_setter self (lower f)
   \<and> renderer_setter self (map_option lower r) = renderer_setter self r
   \<and> formatter_setter self (map_option lower fm) = formatter_setter self fm
   \<and> (fst (engine_setter self e) = None \<longleftrightarrow> lower e \<in> ENGINES)
   \<and> (fst (format_setter self f) = None \<longleftrightarrow> lower f \<in> FORMATS)"
proof -
  have 1: "(\<exists>old. fst (set_default_engine e cls) = Inr old) \<longleftrightarrow> e \<in> ENGINES"
    by (simp add: set_default_engine_def)
  have 2: "(\<exists>old. fst (set_default_format f cls) = Inr old) \<longleftrightarrow> f \<in> FORMATS"
    by (simp add: set_default_format_def)
  have 3: "\<forall>v. lower v \<noteq> v \<longrightarrow> v \<notin> ENGINES \<and> v \<notin> FORMATS \<and> v \<notin> RENDERERS \<and> v \<notin> FORMATTERS"
    using ENGINES_lower FORMATS_lower RENDERERS_lower FORMATTERS_lower by blast
  have 4: "engine_setter self e = engine_setter self (lower e)"
    "format_setter self f = format_setter self (lower f)"
    by (simp_all add: engine_setter_def format_setter_def lower_idem)
  have 5: "renderer_setter self (map_option lower r) = renderer_setter self r"
    "formatter_setter self (map_option lower fm) = formatter_setter self fm"
    by (simp_all add: renderer_setter_def formatter_setter_def lower_idem split: option.splits)
  have 6: "fst (engine_setter self e) = None \<longleftrightarrow> lower e \<in> ENGINES"
    "fst (format_setter self f) = None \<longleftrightarrow> lower f \<in> FORMATS"
    by (simp_all add: engine_setter_def format_setter_def Let_def)
  from command_succeeds_iff [of e f r fm] 1 2 3 4 5 6 show ?thesis by blast
qed

theorem validation_exact_witness:
  "lower ''DOT'' \<noteq> ''DOT'' \<and> ''DOT'' \<notin> ENGINES \<and> lower ''DOT'' \<in> ENGINES
   \<and> \<not> (\<exists>cmd. command ''DOT'' ''pdf'' None None = Inr cmd)
   \<and> \<not> (\<exists>old. fst (set_default_engine ''DOT'' Graphviz_class0) = Inr old)
   \<and> fst (engine_setter new_instance ''DOT'') = None
   \<and> engine_setter new_instance ''DOT'' = engine_setter new_instance ''dot''"
proof -
  have a: "lower ''DOT'' = ''dot''" by code_simp
  have b: "''dot'' \<in> ENGINES" "''DOT'' \<notin> ENGINES" by (simp_all add: ENGINES_def)
  have c: "lower ''DOT'' \<noteq> ''DOT''" by (simp add: a)
  from validation_exact [of "''DOT''" "''pdf''" None None Graphviz_class0 new_instance] a b c
  show ?thesis by metis
qed

section \<open>The default configuration and the Graphviz class\<close>

text \<open>
  Claim C6. For an engine of \<open>ENGINES\<close>, \<open>set_default_engine\<close> returns the default
  that was in effect and makes the engine the new default, which an instance without
  an engine of its own reads from then on; for any other value it fails with a
  \<open>ValueError\<close> naming the value and leaves the default as it was.
  \<open>set_default_format\<close> does the same over \<open>FORMATS\<close>.
\<close>

theorem set_default_swaps:
  "(engine \<in> ENGINES \<longrightarrow>
      set_default_engine engine cls = (Inr (class_engine cls), cls\<lparr>class_engine := engine\<rparr>)
      \<and> (dict_engine self = None \<longrightarrow>
           engine_getter (snd (set_default_engine engine cls)) self = engine))
   \<and> (engine \<notin> ENGINES \<longrightarrow>
      set_default_engine engine cls = (Inl (ValueError (''unknown engine: '' @ repr engine)), cls))
   \<and> (format \<in> FORMATS \<longrightarrow>
      set_default_format format cls = (Inr (class_format cls), cls\<lparr>class_format := format\<rparr>)
      \<and> (dict_format self = None \<longrightarrow>
           format_getter (snd (set_default_format format cls)) self = format
           \<and> fst (get_backend_kwargs (snd (set_default_format format cls)) self None r f) = format))
   \<and> (format \<notin> FORMATS \<longrightarrow>
      set_default_format format cls = (Inl (ValueError (''unknown format: '' @ repr format)), cls))"
  by (simp add: set_default_engine_def set_default_format_def engine_getter_def format_getter_def
      get_backend_kwargs_def)

theorem set_default_swaps_witness:
  "''neato'' \<in> ENGINES \<and> ''svg'' \<in> FORMATS \<and> dict_engine new_instance = None
   \<and> dict_format new_instance = None
   \<and> set_default_engine ''neato'' Graphviz_class0 = (Inr ''dot'', Graphviz_class0\<lparr>class_engine := ''neato''\<rparr>)
   \<and> engine_getter (snd (set_default_engine ''neato'' Graphviz_class0)) new_instance = ''neato''
   \<and> set_default_format ''svg'' Graphviz_class0 = (Inr ''pdf'', Graphviz_class0\<lparr>class_format := ''svg''\<rparr>)
   \<and> format_getter (snd (set_default_format ''svg'' Graphviz_class0)) new_instance = ''svg''
   \<and> ''nope'' \<notin> ENGINES \<and> ''nope'' \<notin> FORMATS
   \<and> set_default_engine ''nope'' Graphviz_class0 =
        (Inl (ValueError (''unknown engine: '' @ [CHR 0x27] @ ''nope'' @ [CHR 0x27])), Graphviz_class0)
   \<and> set_default_format ''nope'' Graphviz_class0 =
        (Inl (ValueError (''unknown format: '' @ [CHR 0x27] @ ''nope'' @ [CHR 0x27])), Graphviz_class0)"
  using set_default_swaps [of "''neato''" Graphviz_class0 new_instance "''svg''" None None]
    set_default_swaps [of "''nope''" Graphviz_class0 new_instance "''nope''" None None]
  by (simp add: ENGINES_def FORMATS_def new_instance_def Graphviz_class0_def repr_def
      repr_char_def printable_def code_def Let_def engine_getter_def format_getter_def)

lemma class_ok0: "class_ok Graphviz_class0"
  by (simp add: class_ok_def Graphviz_class0_def lower_member_def ENGINES_def FORMATS_def
      lower_def lower_char_def code_def)

lemma config_okI: "class_ok cls \<Longrightarrow> dict_ok self \<Longrightarrow> config_ok cls self"
  by (auto simp: class_ok_def dict_ok_def config_ok_def engine_getter_def format_getter_def
      renderer_getter_def formatter_getter_def split: option.splits)

lemma set_default_engine_ok: "class_ok cls \<Longrightarrow> class_ok (snd (set_default_engine v cls))"
  by (simp add: set_default_engine_def class_ok_def lower_member_def ENGINES_lower)

lemma set_default_format_ok: "class_ok cls \<Longrightarrow> class_ok (snd (set_default_format v cls))"
  by (simp add: set_default_format_def class_ok_def lower_member_def FORMATS_lower)

lemma engine_setter_ok: "dict_ok self \<Longrightarrow> dict_ok (snd (engine_setter self v))"
  by (simp add: engine_setter_def dict_ok_def lower_member_def lower_idem Let_def)

lemma format_setter_ok: "dict_ok self \<Longrightarrow> dict_ok (snd (format_setter self v))"
  by (simp add: format_setter_def dict_ok_def lower_member_def lower_idem Let_def)

lemma renderer_setter_ok: "dict_ok self \<Longrightarrow> dict_ok (snd (renderer_setter self v))"
  by (simp add: renderer_setter_def dict_ok_def lower_member_def lower_idem Let_def
      split: option.splits)

lemma formatter_setter_ok: "dict_ok self \<Longrightarrow> dict_ok (snd (formatter_setter self v))"
  by (simp add: formatter_setter_def dict_ok_def lower_member_def lower_idem Let_def
      split: option.splits)

lemma new_instance_ok: "dict_ok new_instance"
  by (simp add: dict_ok_def new_instance_def)

lemma exec_ok:
  "class_ok (fst st) \<Longrightarrow> dict_ok (snd st) \<Longrightarrow> class_ok (fst (exec x st)) \<and> dict_ok (snd (exec x st))"
  by (cases st; cases x)
     (simp_all add: set_default_engine_ok set_default_format_ok engine_setter_ok format_setter_ok
        renderer_setter_ok formatter_setter_ok)

lemma exec_class_ok: "class_ok (fst st) \<Longrightarrow> class_ok (fst (exec x st))"
  by (cases st; cases x) (simp_all add: set_default_engine_ok set_default_format_ok)

lemma exec_all_class_ok: "class_ok (fst st) \<Longrightarrow> class_ok (fst (exec_all xs st))"
  by (induction xs arbitrary: st) (simp_all add: exec_class_ok)

lemma exec_all_ok:
  "class_ok (fst st) \<Longrightarrow> dict_ok (snd st)
   \<Longrightarrow> class_ok (fst (exec_all xs st)) \<and> dict_ok (snd (exec_all xs st))"
proof (induction xs arbitrary: st)
  case Nil
  then show ?case by simp
next
  case (Cons x xs)
  from exec_ok [OF Cons.prems] have "class_ok (fst (exec x st))" and "dict_ok (snd (exec x st))"
    by simp_all
  from Cons.IH [OF this] show ?case by simp
qed

lemma init_ok: "init fo en re fm = Inr self \<Longrightarrow> dict_ok self"
proof -
  assume a: "init fo en re fm = Inr self"
  define s1 where "s1 = (case fo of None \<Rightarrow> new_instance | Some f \<Rightarrow> snd (format_setter new_instance f))"
  define s2 where "s2 = (case en of None \<Rightarrow> s1 | Some e \<Rightarrow> snd (engine_setter s1 e))"
  define s3 where "s3 = snd (renderer_setter s2 re)"
  define s4 where "s4 = snd (formatter_setter s3 fm)"
  have o1: "dict_ok s1" unfolding s1_def
    by (simp add: new_instance_ok format_setter_ok split: option.splits)
  have o2: "dict_ok s2" unfolding s2_def
    using o1 by (simp add: engine_setter_ok split: option.splits)
  have o3: "dict_ok s3" unfolding s3_def using o2 by (rule renderer_setter_ok)
  have o4: "dict_ok s4" unfolding s4_def using o3 by (rule formatter_setter_ok)
  from a have "self = s4"
    unfolding init_def s4_def s3_def s2_def s1_def
    by (auto simp: Let_def split: option.splits prod.splits)
  with o4 show ?thesis by simp
qed

text \<open>
  Claim C10. Whatever statements ran before, after a construction that succeeds and
  after every later assignment to a property or call of \<open>set_default_engine\<close> or
  \<open>set_default_format\<close>, the engine and the format of the instance are lower-case
  members of \<open>ENGINES\<close> and \<open>FORMATS\<close>, and its renderer and formatter are \<open>None\<close> or
  lower-case members of \<open>RENDERERS\<close> and \<open>FORMATTERS\<close>. An assignment that raises leaves
  the instance as it was, and assigning \<open>None\<close> to the renderer or the formatter makes the
  property read \<open>None\<close> again.
\<close>

theorem configuration_invariant:
  assumes "fst (exec_all before (Graphviz_class0, other)) = cls"
    and "init format engine renderer formatter = Inr self"
    and "exec_all after (cls, self) = (cls', self')"
  shows "config_ok cls self \<and> config_ok cls' self'
    \<and> (\<forall>v e. fst (engine_setter self' v) = Some e \<longrightarrow> snd (engine_setter self' v) = self')
    \<and> (\<forall>v e. fst (format_setter self' v) = Some e \<longrightarrow> snd (format_setter self' v) = self')
    \<and> (\<forall>v e. fst (renderer_setter self' v) = Some e \<longrightarrow> snd (renderer_setter self' v) = self')
    \<and> (\<forall>v e. fst (formatter_setter self' v) = Some e \<longrightarrow> snd (formatter_setter self' v) = self')
    \<and> fst (renderer_setter self' None) = None
    \<and> renderer_getter cls' (snd (renderer_setter self' None)) = None
    \<and> fst (formatter_setter self' None) = None
    \<and> formatter_getter cls' (snd (formatter_setter self' None)) = None"
proof -
  have c: "class_ok cls"
    using exec_all_class_ok [of "(Graphviz_class0, other)" before] assms(1) class_ok0 by simp
  have d: "dict_ok self" using assms(2) by (rule init_ok)
  have "class_ok (fst (exec_all after (cls, self))) \<and> dict_ok (snd (exec_all after (cls, self)))"
    by (rule exec_all_ok) (simp_all add: c d)
  then have c': "class_ok cls'" and d': "dict_ok self'" using assms(3) by simp_all
  have 1: "config_ok cls self" using c d by (rule config_okI)
  have 2: "config_ok cls' self'" using c' d' by (rule config_okI)
  have 3: "\<forall>v e. fst (engine_setter self' v) = Some e \<longrightarrow> snd (engine_setter self' v) = self'"
    by (simp add: engine_setter_def Let_def)
  have 4: "\<forall>v e. fst (format_setter self' v) = Some e \<longrightarrow> snd (format_setter self' v) = self'"
    by (simp add: format_setter_def Let_def)
  have 5: "\<forall>v e. fst (renderer_setter self' v) = Some e \<longrightarrow> snd (renderer_setter self' v) = self'"
    by (simp add: renderer_setter_def Let_def split: option.splits)
  have 6: "\<forall>v e. fst (formatter_setter self' v) = Some e \<longrightarrow> snd (formatter_setter self' v) = self'"
    by (simp add: formatter_setter_def Let_def split: option.splits)
  have 7: "fst (renderer_setter self' None) = None"
    "renderer_getter cls' (snd (renderer_setter self' None)) = None"
    using c' by (simp_all add: renderer_setter_def renderer_getter_def class_ok_def)
  have 8: "fst (formatter_setter self' None) = None"
    "formatter_getter cls' (snd (formatter_setter self' None)) = None"
    using c' by (simp_all add: formatter_setter_def formatter_getter_def class_ok_def)
  from 1 2 3 4 5 6 7 8 show ?thesis by blast
qed

theorem configuration_invariant_witness:
  "fst (exec_all [Set_default_engine ''neato'', Set_default_format ''PNG'']
         (Graphviz_class0, new_instance)) = Graphviz_class0\<lparr>class_engine := ''neato''\<rparr>
   \<and> init (Some ''SVG'') None (Some ''Cairo'') None =
        Inr \<lparr>dict_engine = None, dict_format = Some ''svg'', dict_renderer = Some ''cairo'',
             dict_formatter = None\<rparr>
   \<and> exec_all [Assign_engine ''FDP'', Assign_format ''bogus'', Assign_renderer None,
                 Assign_formatter (Some ''GD''), Set_default_format ''png'']
        (Graphviz_class0\<lparr>class_engine := ''neato''\<rparr>,
         \<lparr>dict_engine = None, dict_format = Some ''svg'', dict_renderer = Some ''cairo'',
           dict_formatter = None\<rparr>)
       = (Graphviz_class0\<lparr>class_engine := ''neato'', class_format := ''png''\<rparr>,
          \<lparr>dict_engine = Some ''fdp'', dict_format = Some ''svg'', dict_renderer = None,
           dict_formatter = Some ''gd''\<rparr>)
   \<and> config_ok (Graphviz_class0\<lparr>class_engine := ''neato''\<rparr>)
        \<lparr>dict_engine = None, dict_format = Some ''svg'', dict_renderer = Some ''cairo'',
             dict_formatter = None\<rparr>
   \<and> config_ok (Graphviz_class0\<lparr>class_engine := ''neato'', class_format := ''png''\<rparr>)
          \<lparr>dict_engine = Some ''fdp'', dict_format = Some ''svg'', dict_renderer = None,
           dict_formatter = Some ''gd''\<rparr>"
proof -
  have h1: "fst (exec_all [Set_default_engine ''neato'', Set_default_format ''PNG'']
         (Graphviz_class0, new_instance)) = Graphviz_class0\<lparr>class_engine := ''neato''\<rparr>"
    by code_simp
  have h2: "init (Some ''SVG'') None (Some ''Cairo'') None =
        Inr \<lparr>dict_engine = None, dict_format = Some ''svg'', dict_renderer = Some ''cairo'',
             dict_formatter = None\<rparr>"
    by code_simp
  have h3: "exec_all [Assign_engine ''FDP'', Assign_format ''bogus'', Assign_renderer None,
                 Assign_formatter (Some ''GD''), Set_default_format ''png'']
        (Graphviz_class0\<lparr>class_engine := ''neato''\<rparr>,
         \<lparr>dict_engine = None, dict_format = Some ''svg'', dict_renderer = Some ''cairo'',
           dict_formatter = None\<rparr>)
       = (Graphviz_class0\<lparr>class_engine := ''neato'', class_format := ''png''\<rparr>,
          \<lparr>dict_engine = Some ''fdp'', dict_format = Some ''svg'', dict_renderer = None,
           dict_formatter = Some ''gd''\<rparr>)"
    by code_simp
  from configuration_invariant [OF h1 h2 h3] h1 h2 h3 show ?thesis by blast
qed

section \<open>The rendering functions\<close>

text \<open>
  Claim C7. \<open>render\<close>, \<open>pipe\<close>, \<open>pipe_string\<close>, \<open>pipe_lines\<close> and \<open>pipe_lines_string\<close>
  raise the errors of \<open>command\<close> and of \<open>run_check\<close> unchanged. When \<open>command\<close> fails,
  each of them fails with that same error; when it succeeds, the result is the result
  of the one call of \<open>run_check\<close>, its error passed on as it is and its success mapped
  to the captured output (for \<open>render\<close>, to the path of the rendered file). No error is
  caught, turned into another one or replaced by a default result.
\<close>

theorem facades_propagate:
  "(command engine format renderer formatter = Inl err \<longrightarrow>
      render run_check engine format filepath renderer formatter q = Inl err
      \<and> pipe run_check engine format data renderer formatter q = Inl err
      \<and> pipe_string run_check engine format data enc renderer formatter q = Inl err
      \<and> pipe_lines run_check engine format ls enc renderer formatter q = Inl err
      \<and> pipe_lines_string run_check engine format ls enc renderer formatter q = Inl err)
   \<and> (command engine format renderer formatter = Inr cmd \<longrightarrow>
      render run_check engine format filepath renderer formatter q =
        map_sum (\<lambda>e. e)
          (\<lambda>proc. if fst (path_split filepath) \<noteq> []
                   then path_join (fst (path_split filepath))
                          (snd (path_split filepath) @ ''.''
                             @ join ''.'' (not_none [formatter, renderer, Some format]))
                   else snd (path_split filepath) @ ''.''
                          @ join ''.'' (not_none [formatter, renderer, Some format]))
          (run_check (cmd @ [Str ''-O'', Str (snd (path_split filepath))])
             (no_kwargs\<lparr>capture_output := Some True,
                cwd := Some (if fst (path_split filepath) \<noteq> [] then Some (fst (path_split filepath))
                             else None),
                quiet := Some q\<rparr>))
      \<and> pipe run_check engine format data renderer formatter q =
        map_sum (\<lambda>e. e) stdout
          (run_check cmd (no_kwargs\<lparr>capture_output := Some True, quiet := Some q,
                                      input := Some data\<rparr>))
      \<and> pipe_string run_check engine format data enc renderer formatter q =
        map_sum (\<lambda>e. e) stdout
          (run_check cmd (no_kwargs\<lparr>capture_output := Some True, quiet := Some q,
                                      input := Some data, encoding := Some enc\<rparr>))
      \<and> pipe_lines run_check engine format ls enc renderer formatter q =
        map_sum (\<lambda>e. e) stdout
          (run_check cmd (no_kwargs\<lparr>capture_output := Some True, quiet := Some q,
                                      input_lines := Some (Encode enc ls)\<rparr>))
      \<and> pipe_lines_string run_check engine format ls enc renderer formatter q =
        map_sum (\<lambda>e. e) stdout
          (run_check cmd (no_kwargs\<lparr>capture_output := Some True, quiet := Some q,
                                      input_lines := Some (Lines ls), encoding := Some enc\<rparr>)))"
  by (simp add: render_def pipe_def pipe_string_def pipe_lines_def pipe_lines_string_def Let_def
      split: sum.splits prod.splits)

theorem facades_propagate_witness:
  "command ''dot'' ''pdf'' None (Some ''gd'') =
     Inl (RequiredArgumentError ''formatter given without renderer'')
   \<and> render (mocked ''out'') ''dot'' ''pdf'' ''doc/g.gv'' None (Some ''gd'') False =
       Inl (RequiredArgumentError ''formatter given without renderer'')
   \<and> pipe_lines (mocked ''out'') ''dot'' ''pdf'' [''graph {}''] ''utf-8'' None
         (Some ''gd'') False =
       Inl (RequiredArgumentError ''formatter given without renderer'')
   \<and> command ''dot'' ''svg'' None None = Inr [Path ''dot'', Str ''-Kdot'', Str ''-Tsvg'']
   \<and> pipe (\<lambda>cmd kw. Inl (ExecutableNotFound cmd)) ''dot'' ''svg'' ''graph {}'' None None False =
       Inl (ExecutableNotFound [Path ''dot'', Str ''-Kdot'', Str ''-Tsvg''])
   \<and> pipe_string (\<lambda>cmd kw. Inl (CalledProcessError 1 cmd ''syntax error'')) ''dot'' ''svg''
         ''graph {'' ''utf-8'' None None False =
       Inl (CalledProcessError 1 [Path ''dot'', Str ''-Kdot'', Str ''-Tsvg''] ''syntax error'')
   \<and> pipe_lines_string (mocked ''out'') ''dot'' ''svg'' [''graph {}''] ''utf-8''
         None None False = Inr ''out''"
proof -
  have a: "command ''dot'' ''pdf'' None (Some ''gd'') =
     Inl (RequiredArgumentError ''formatter given without renderer'')"
    by (simp add: command_def)
  have b: "command ''dot'' ''svg'' None None = Inr [Path ''dot'', Str ''-Kdot'', Str ''-Tsvg'']"
    by (simp add: command_def ENGINES_def FORMATS_def DOT_BINARY_def)
  note t = facades_propagate [where engine = "''dot''" and renderer = None and q = False]
  from a t [where format = "''pdf''" and formatter = "Some ''gd''"
      and run_check = "mocked ''out''"
      and err = "RequiredArgumentError ''formatter given without renderer''"
      and filepath = "''doc/g.gv''" and ls = "[''graph {}'']" and enc = "''utf-8''"]
  have 1: "render (mocked ''out'') ''dot'' ''pdf'' ''doc/g.gv'' None (Some ''gd'') False =
       Inl (RequiredArgumentError ''formatter given without renderer'')"
    and 2: "pipe_lines (mocked ''out'') ''dot'' ''pdf'' [''graph {}''] ''utf-8'' None
         (Some ''gd'') False =
       Inl (RequiredArgumentError ''formatter given without renderer'')"
    by blast+
  from b t [where format = "''svg''" and formatter = None
      and run_check = "\<lambda>cmd kw. Inl (ExecutableNotFound cmd)"
      and cmd = "[Path ''dot'', Str ''-Kdot'', Str ''-Tsvg'']" and data = "''graph {}''"]
  have 3: "pipe (\<lambda>cmd kw. Inl (ExecutableNotFound cmd)) ''dot'' ''svg'' ''graph {}'' None None False =
       Inl (ExecutableNotFound [Path ''dot'', Str ''-Kdot'', Str ''-Tsvg''])"
    by simp
  from b t [where format = "''svg''" and formatter = None
      and run_check = "\<lambda>cmd kw. Inl (CalledProcessError 1 cmd ''syntax error'')"
      and cmd = "[Path ''dot'', Str ''-Kdot'', Str ''-Tsvg'']" and data = "''graph {''"
      and enc = "''utf-8''"]
  have 4: "pipe_string (\<lambda>cmd kw. Inl (CalledProcessError 1 cmd ''syntax error'')) ''dot'' ''svg''
         ''graph {'' ''utf-8'' None None False =
       Inl (CalledProcessError 1 [Path ''dot'', Str ''-Kdot'', Str ''-Tsvg''] ''syntax error'')"
    by simp
  from b t [where format = "''svg''" and formatter = None
      and run_check = "mocked ''out''"
      and cmd = "[Path ''dot'', Str ''-Kdot'', Str ''-Tsvg'']" and ls = "[''graph {}'']"
      and enc = "''utf-8''"]
  have 5: "pipe_lines_string (mocked ''out'') ''dot'' ''svg'' [''graph {}''] ''utf-8''
         None None False = Inr ''out''"
    by (simp add: mocked_def)
  from a b 1 2 3 4 5 show ?thesis by blast
qed















section \<open>The version query\<close>

lemma many1_shorter: "s' \<in> set (many1 p s) \<Longrightarrow> length s' < length s"
  by (induction s) (auto split: if_splits)

lemma many1_take:
  "s' \<in> set (many1 p s) \<Longrightarrow>
     take (length s - length s') s \<noteq> [] \<and> list_all p (take (length s - length s') s)"
proof (induction s)
  case Nil
  then show ?case by simp
next
  case (Cons c cs)
  then have pc: "p c" and mem: "s' = cs \<or> s' \<in> set (many1 p cs)"
    by (auto split: if_splits)
  from mem show ?case
  proof
    assume "s' = cs"
    with pc show ?thesis by simp
  next
    assume m: "s' \<in> set (many1 p cs)"
    then have "length s' < length cs" by (rule many1_shorter)
    then have "length (c # cs) - length s' = Suc (length cs - length s')" by simp
    with pc Cons.IH [OF m] show ?thesis by simp
  qed
qed

lemma matches_dom:
  "(s', g') \<in> set (matches r (s, g)) \<Longrightarrow> dom g \<subseteq> dom g'"
proof (induction r arbitrary: s g s' g')
  case (Seq a b)
  then obtain s1 g1 where 1: "(s1, g1) \<in> set (matches a (s, g))"
    and 2: "(s', g') \<in> set (matches b (s1, g1))" by auto
  from Seq.IH(1) [OF 1] Seq.IH(2) [OF 2] show ?case by blast
next
  case (Group i a)
  then obtain g1 where 1: "(s', g1) \<in> set (matches a (s, g))"
    and 2: "g' = g1(i \<mapsto> take (length s - length s') s)" by auto
  from Group.IH [OF 1] 2 show ?case by auto
next
  case (Alt a b)
  then have "(s', g') \<in> set (matches a (s, g)) \<or> (s', g') \<in> set (matches b (s, g))" by auto
  then show ?case
  proof
    assume "(s', g') \<in> set (matches a (s, g))"
    then show ?thesis by (rule Alt.IH(1))
  next
    assume "(s', g') \<in> set (matches b (s, g))"
    then show ?thesis by (rule Alt.IH(2))
  qed
next
  case (Opt a)
  then have "(s', g') \<in> set (matches a (s, g)) \<or> (s', g') = (s, g)" by auto
  then show ?case
  proof
    assume "(s', g') \<in> set (matches a (s, g))"
    then show ?thesis by (rule Opt.IH)
  next
    assume "(s', g') = (s, g)"
    then show ?thesis by simp
  qed
qed (auto split: option.splits if_splits)

lemma matches_sets_groups:
  "(s', g') \<in> set (matches r (s, g)) \<Longrightarrow> sets_groups r \<subseteq> dom g'"
proof (induction r arbitrary: s g s' g')
  case (Seq a b)
  then obtain s1 g1 where 1: "(s1, g1) \<in> set (matches a (s, g))"
    and 2: "(s', g') \<in> set (matches b (s1, g1))" by auto
  from Seq.IH(1) [OF 1] Seq.IH(2) [OF 2] matches_dom [OF 2] show ?case by auto
next
  case (Alt a b)
  then have "(s', g') \<in> set (matches a (s, g)) \<or> (s', g') \<in> set (matches b (s, g))" by auto
  then show ?case
  proof
    assume "(s', g') \<in> set (matches a (s, g))"
    from Alt.IH(1) [OF this] show ?thesis by auto
  next
    assume "(s', g') \<in> set (matches b (s, g))"
    from Alt.IH(2) [OF this] show ?thesis by auto
  qed
next
  case (Group i a)
  then obtain g1 where 1: "(s', g1) \<in> set (matches a (s, g))"
    and 2: "g' = g1(i \<mapsto> take (length s - length s') s)" by auto
  from Group.IH [OF 1] 2 show ?case by auto
qed simp_all

lemma matches_digits:
  "(s', g') \<in> set (matches r (s, g)) \<Longrightarrow> digit_groups r \<Longrightarrow> \<forall>i v. g i = Some v \<longrightarrow> digits v
   \<Longrightarrow> g' i = Some v \<Longrightarrow> digits v"
proof (induction r arbitrary: s g s' g' i v)
  case (Seq a b)
  from Seq.prems(1) obtain s1 g1 where 1: "(s1, g1) \<in> set (matches a (s, g))"
    and 2: "(s', g') \<in> set (matches b (s1, g1))" by auto
  have "\<forall>i v. g1 i = Some v \<longrightarrow> digits v"
    using Seq.IH(1) [OF 1 _ Seq.prems(3)] Seq.prems(2) by auto
  from Seq.IH(2) [OF 2 _ this Seq.prems(4)] Seq.prems(2) show ?case by simp
next
  case (Alt a b)
  from Alt.prems(1) have "(s', g') \<in> set (matches a (s, g)) \<or> (s', g') \<in> set (matches b (s, g))"
    by auto
  then show ?case
  proof
    assume m: "(s', g') \<in> set (matches a (s, g))"
    from Alt.prems(2) have "digit_groups a" by simp
    from Alt.IH(1) [OF m this Alt.prems(3,4)] show ?thesis .
  next
    assume m: "(s', g') \<in> set (matches b (s, g))"
    from Alt.prems(2) have "digit_groups b" by simp
    from Alt.IH(2) [OF m this Alt.prems(3,4)] show ?thesis .
  qed
next
  case (Opt a)
  from Opt.prems(1) have "(s', g') \<in> set (matches a (s, g)) \<or> (s', g') = (s, g)" by auto
  then show ?case
  proof
    assume m: "(s', g') \<in> set (matches a (s, g))"
    from Opt.prems(2) have "digit_groups a" by simp
    from Opt.IH [OF m this Opt.prems(3,4)] show ?thesis .
  next
    assume "(s', g') = (s, g)"
    with Opt.prems(3,4) show ?thesis by simp
  qed
next
  case (Group j a)
  then have a: "a = Many1 Digit" by simp
  with Group.prems(1) have m: "s' \<in> set (many1 (in_cls Digit) s)"
    and g': "g' = g(j \<mapsto> take (length s - length s') s)" by auto
  from many1_take [OF m] have "digits (take (length s - length s') s)" by (simp add: digits_def)
  with g' Group.prems(3,4) show ?case by (auto split: if_splits)
qed (auto split: option.splits if_splits)

lemma search_Some:
  "search r s = Some g \<Longrightarrow> \<exists>k s'. k \<le> length s \<and> (s', g) \<in> set (matches r (drop k s, Map.empty))"
proof (induction s)
  case Nil
  then show ?case by (auto split: list.splits)
next
  case (Cons c cs)
  show ?case
  proof (cases "matches r (c # cs, Map.empty)")
    case Nil
    with Cons.prems have "search r cs = Some g" by simp
    from Cons.IH [OF this] obtain k s' where "k \<le> length cs"
      "(s', g) \<in> set (matches r (drop k cs, Map.empty))" by blast
    then have "Suc k \<le> length (c # cs) \<and> (s', g) \<in> set (matches r (drop (Suc k) (c # cs), Map.empty))"
      by simp
    then show ?thesis by blast
  next
    case (Cons x xs)
    with Cons.prems have "(fst x, g) \<in> set (matches r (drop 0 (c # cs), Map.empty))"
      by (cases x) auto
    then show ?thesis by blast
  qed
qed

lemma search_None:
  "search r s = None \<longleftrightarrow> (\<forall>k \<le> length s. matches r (drop k s, Map.empty) = [])"
proof (induction s)
  case Nil
  then show ?case by (auto split: list.splits)
next
  case (Cons c cs)
  have "(\<forall>k \<le> length (c # cs). matches r (drop k (c # cs), Map.empty) = []) \<longleftrightarrow>
        matches r (c # cs, Map.empty) = [] \<and> (\<forall>k \<le> length cs. matches r (drop k cs, Map.empty) = [])"
  proof
    assume a: "\<forall>k \<le> length (c # cs). matches r (drop k (c # cs), Map.empty) = []"
    from a [rule_format, of 0] have 1: "matches r (c # cs, Map.empty) = []" by simp
    have 2: "\<forall>k \<le> length cs. matches r (drop k cs, Map.empty) = []"
    proof (intro allI impI)
      fix k assume "k \<le> length cs"
      with a [rule_format, of "Suc k"] show "matches r (drop k cs, Map.empty) = []" by simp
    qed
    from 1 2 show "matches r (c # cs, Map.empty) = [] \<and> (\<forall>k \<le> length cs. matches r (drop k cs, Map.empty) = [])" ..
  next
    assume b: "matches r (c # cs, Map.empty) = [] \<and> (\<forall>k \<le> length cs. matches r (drop k cs, Map.empty) = [])"
    show "\<forall>k \<le> length (c # cs). matches r (drop k (c # cs), Map.empty) = []"
    proof (intro allI impI)
      fix k assume k: "k \<le> length (c # cs)"
      show "matches r (drop k (c # cs), Map.empty) = []"
      proof (cases k)
        case 0
        with b show ?thesis by simp
      next
        case (Suc n)
        with k b show ?thesis by simp
      qed
    qed
  qed
  with Cons.IH show ?case by (auto split: list.splits)
qed

lemma py_int_nonneg_aux:
  "list_all (in_cls Digit) d \<Longrightarrow> 0 \<le> a \<Longrightarrow> 0 \<le> foldl (\<lambda>a c. 10 * a + (int (code c) - 48)) a d"
  by (induction d arbitrary: a) auto

lemma py_int_nonneg: "digits d \<Longrightarrow> 0 \<le> py_int d"
  by (simp add: py_int_def digits_def py_int_nonneg_aux)

lemma version_pattern_groups: "sets_groups version_pattern = {1, 2}"
  by (auto simp: version_pattern_def seq_def)

lemma version_pattern_digit_groups: "digit_groups version_pattern"
  by (simp add: version_pattern_def seq_def)

lemma groups_4: "groups 4 g = [g 1, g 2, g 3, g 4]"
proof -
  have "[1 ..< Suc 4] = [1, 2, 3, 4::nat]" by (simp add: upt_rec)
  then show ?thesis by (simp add: groups_def)
qed

lemma not_none_set: "x \<in> set (not_none xs) \<Longrightarrow> Some x \<in> set xs"
  by (induction xs rule: not_none.induct) auto

lemma version_groups:
  assumes "search version_pattern text = Some g"
  shows "length (not_none (groups 4 g)) \<in> {2, 3, 4} \<and> (\<forall>d \<in> set (not_none (groups 4 g)). digits d)"
proof -
  from search_Some [OF assms] obtain k s' where
    m: "(s', g) \<in> set (matches version_pattern (drop k text, Map.empty))" by blast
  from matches_sets_groups [OF m] have "{1, 2} \<subseteq> dom g" by (simp add: version_pattern_groups)
  then obtain a b where ab: "g 1 = Some a" "g 2 = Some b" by auto
  have len: "length (not_none (groups 4 g)) \<in> {2, 3, 4}"
    unfolding groups_4 using ab by (cases "g 3"; cases "g 4") simp_all
  have dig: "\<forall>d \<in> set (not_none (groups 4 g)). digits d"
  proof
    fix d assume "d \<in> set (not_none (groups 4 g))"
    then have "Some d \<in> set (groups 4 g)" by (rule not_none_set)
    then obtain i where "g i = Some d" by (auto simp: groups_4)
    from matches_digits [OF m version_pattern_digit_groups _ this] show "digits d" by simp
  qed
  from len dig show ?thesis ..
qed

lemma repr_char_plain:
  "printable c \<Longrightarrow> c \<noteq> CHR 0x27 \<Longrightarrow> c \<noteq> CHR 0x5C \<Longrightarrow> repr_char (CHR 0x27) c = [c]"
  by (auto simp: repr_char_def printable_def code_def)

lemma repr_plain:
  assumes "\<forall>c \<in> set s. printable c \<and> c \<noteq> CHR 0x27 \<and> c \<noteq> CHR 0x5C"
  shows "repr s = [CHR 0x27] @ s @ [CHR 0x27]"
proof -
  have "concat (map (repr_char (CHR 0x27)) s) = s"
    using assms by (induction s) (simp_all add: repr_char_plain)
  moreover from assms have "CHR 0x27 \<notin> set s" by auto
  ultimately show ?thesis by (simp add: repr_def Let_def)
qed

lemma version_result:
  assumes "version run_check = Inr r"
  shows "length r \<in> {2, 3, 4} \<and> (\<forall>x \<in> set r. 0 \<le> x)"
proof -
  from assms obtain proc :: completed_process and g
    where g: "search version_pattern (stdout proc) = Some g"
    and r: "r = map py_int (not_none (groups 4 g))"
    by (auto simp: version_def Let_def split: sum.splits option.splits)
  from version_groups [OF g] r show ?thesis by (auto simp: py_int_nonneg)
qed

lemma version_no_match:
  assumes "run_check [DOT_BINARY, Str ''-V'']
      (no_kwargs\<lparr>stdout_kw := Some PIPE, stderr_kw := Some STDOUT, encoding := Some ''ascii''\<rparr>) = Inr proc"
    and "\<forall>k \<le> length (stdout proc). matches version_pattern (drop k (stdout proc), Map.empty) = []"
  shows "version run_check =
     Inl (RuntimeError (''cannot parse '' @ repr_list [DOT_BINARY, Str ''-V''] @ '' output: ''
                         @ repr (stdout proc)))"
proof -
  from assms(2) have "search version_pattern (stdout proc) = None" by (simp add: search_None)
  with assms(1) show ?thesis by (simp add: version_def Let_def)
qed

text \<open>
  Claim C4, as stated, fails where it says that the message of the parse error embeds
  the raw text: the message holds the \<open>repr\<close> of the text, in which a newline is written
  as a backslash and an \<open>n\<close>. On the text \<open>dot - no version\<close> followed by a newline the
  pattern does not match, and the text does not occur in the message.
\<close>

theorem version_message_escapes:
  "version (mocked (''dot - no version'' @ [CHR 0x0A])) =
     Inl (RuntimeError (''cannot parse [PosixPath('' @ [CHR 0x27] @ ''dot'' @ [CHR 0x27] @ ''), ''
            @ [CHR 0x27] @ ''-V'' @ [CHR 0x27] @ ''] output: ''
            @ [CHR 0x27] @ ''dot - no version'' @ [CHR 0x5C, CHR ''n'', CHR 0x27]))
   \<and> \<not> contains (''cannot parse [PosixPath('' @ [CHR 0x27] @ ''dot'' @ [CHR 0x27] @ ''), ''
            @ [CHR 0x27] @ ''-V'' @ [CHR 0x27] @ ''] output: ''
            @ [CHR 0x27] @ ''dot - no version'' @ [CHR 0x5C, CHR ''n'', CHR 0x27])
         (''dot - no version'' @ [CHR 0x0A])"
  by code_simp

text \<open>
  Claim C4, amended. \<open>version\<close> returns \<open>(1, 2, 3)\<close> on the banner
  \<open>graphviz version 1.2.3 (mocked)\<close>, \<open>(2, 43, 20190912, 211)\<close> on
  \<open>graphviz version 2.43.20190912.0211 (20190912.0211)\<close> and \<open>(2, 44, 2)\<close> on
  \<open>graphviz version 2.44.2~dev.20200927.0217 (...)\<close>. When \<open>run_check\<close> returns a text in
  which the pattern matches at no position, \<open>version\<close> fails with a \<open>RuntimeError\<close> whose
  message ends with the \<open>repr\<close> of that text: the text between quotes, with quotes,
  backslashes, newlines and other non-printable characters escaped. That is the text
  itself between quotes when all its characters are printable and none is a quote or
  a backslash. Every result of a \<open>version\<close> that succeeds has two, three or four
  components, none of them negative.
\<close>

theorem version_parses:
  "version (mocked ''graphviz version 1.2.3 (mocked)'') = Inr [1, 2, 3]
   \<and> version (mocked ''graphviz version 2.43.20190912.0211 (20190912.0211)'')
       = Inr [2, 43, 20190912, 211]
   \<and> version (mocked ''graphviz version 2.44.2~dev.20200927.0217 (...)'')
       = Inr [2, 44, 2]
   \<and> (run_check [DOT_BINARY, Str ''-V'']
         (no_kwargs\<lparr>stdout_kw := Some PIPE, stderr_kw := Some STDOUT, encoding := Some ''ascii''\<rparr>)
         = Inr proc
       \<and> (\<forall>k \<le> length (stdout proc). matches version_pattern (drop k (stdout proc), Map.empty) = [])
       \<longrightarrow> version run_check =
             Inl (RuntimeError (''cannot parse '' @ repr_list [DOT_BINARY, Str ''-V''] @ '' output: ''
                                 @ repr (stdout proc))))
   \<and> ((\<forall>c \<in> set banner. printable c \<and> c \<noteq> CHR 0x27 \<and> c \<noteq> CHR 0x5C)
       \<longrightarrow> repr banner = [CHR 0x27] @ banner @ [CHR 0x27])
   \<and> (\<forall>r. version run_check = Inr r \<longrightarrow> length r \<in> {2, 3, 4} \<and> (\<forall>x \<in> set r. 0 \<le> x))"
proof -
  have 1: "version (mocked ''graphviz version 1.2.3 (mocked)'') = Inr [1, 2, 3]"
    by code_simp
  have 2: "version (mocked ''graphviz version 2.43.20190912.0211 (20190912.0211)'')
       = Inr [2, 43, 20190912, 211]"
    by code_simp
  have 3: "version (mocked ''graphviz version 2.44.2~dev.20200927.0217 (...)'')
       = Inr [2, 44, 2]"
    by code_simp
  have 4: "run_check [DOT_BINARY, Str ''-V'']
         (no_kwargs\<lparr>stdout_kw := Some PIPE, stderr_kw := Some STDOUT, encoding := Some ''ascii''\<rparr>)
         = Inr proc
       \<and> (\<forall>k \<le> length (stdout proc). matches version_pattern (drop k (stdout proc), Map.empty) = [])
       \<longrightarrow> version run_check =
             Inl (RuntimeError (''cannot parse '' @ repr_list [DOT_BINARY, Str ''-V''] @ '' output: ''
                                 @ repr (stdout proc)))"
    using version_no_match by blast
  have 5: "(\<forall>c \<in> set banner. printable c \<and> c \<noteq> CHR 0x27 \<and> c \<noteq> CHR 0x5C)
       \<longrightarrow> repr banner = [CHR 0x27] @ banner @ [CHR 0x27]"
    using repr_plain by blast
  have 6: "\<forall>r. version run_check = Inr r \<longrightarrow> length r \<in> {2, 3, 4} \<and> (\<forall>x \<in> set r. 0 \<le> x)"
    using version_result by blast
  from 1 2 3 4 5 6 show ?thesis by blast
qed

theorem version_parses_witness:
  "search version_pattern ''nonversioninfo'' = None
   \<and> version (mocked ''nonversioninfo'') =
       Inl (RuntimeError (''cannot parse [PosixPath('' @ [CHR 0x27] @ ''dot'' @ [CHR 0x27] @ ''), ''
              @ [CHR 0x27] @ ''-V'' @ [CHR 0x27] @ ''] output: ''
              @ [CHR 0x27] @ ''nonversioninfo'' @ [CHR 0x27]))
   \<and> version (mocked ''graphviz version 2.44.1 (mocked)'') = Inr [2, 44, 1]
   \<and> length [2, 44, 1 :: int] \<in> {2, 3, 4} \<and> list_all (\<lambda>x. 0 \<le> x) [2, 44, 1 :: int]"
proof -
  have s: "search version_pattern ''nonversioninfo'' = None" by code_simp
  then have a: "\<forall>k \<le> length ''nonversioninfo''.
      matches version_pattern (drop k ''nonversioninfo'', Map.empty) = []"
    by (simp only: search_None)
  have b: "\<forall>c \<in> set ''nonversioninfo''. printable c \<and> c \<noteq> CHR 0x27 \<and> c \<noteq> CHR 0x5C"
    by code_simp
  have c: "version (mocked ''graphviz version 2.44.1 (mocked)'') = Inr [2, 44, 1]"
    by code_simp
  have d: "repr_list [DOT_BINARY, Str ''-V''] =
      ''[PosixPath('' @ [CHR 0x27] @ ''dot'' @ [CHR 0x27] @ ''), '' @ [CHR 0x27] @ ''-V''
        @ [CHR 0x27] @ '']''"
    by code_simp
  note t = version_parses [where run_check = "mocked ''nonversioninfo''"
      and proc = "\<lparr>stdout = ''nonversioninfo''\<rparr>" and banner = "''nonversioninfo''"]
  from t a b have "version (mocked ''nonversioninfo'') =
       Inl (RuntimeError (''cannot parse '' @ repr_list [DOT_BINARY, Str ''-V''] @ '' output: ''
                           @ [CHR 0x27] @ ''nonversioninfo'' @ [CHR 0x27]))"
    by (simp add: mocked_def)
  then have e: "version (mocked ''nonversioninfo'') =
       Inl (RuntimeError (''cannot parse [PosixPath('' @ [CHR 0x27] @ ''dot'' @ [CHR 0x27] @ ''), ''
              @ [CHR 0x27] @ ''-V'' @ [CHR 0x27] @ ''] output: ''
              @ [CHR 0x27] @ ''nonversioninfo'' @ [CHR 0x27]))"
    by (simp add: d)
  from version_parses [where run_check = "mocked ''graphviz version 2.44.1 (mocked)''"] c
  have f: "length [2, 44, 1 :: int] \<in> {2, 3, 4} \<and> (\<forall>x \<in> set [2, 44, 1 :: int]. 0 \<le> x)"
    by blast
  then have g: "length [2, 44, 1 :: int] \<in> {2, 3, 4} \<and> list_all (\<lambda>x. 0 \<le> x) [2, 44, 1 :: int]"
    by (simp add: list_all_iff)
  from s c e g show ?thesis by blast
qed

lemma strip_Some: "strip cs s = Some s' \<Longrightarrow> s = cs @ s'"
  by (induction cs s rule: strip.induct) (auto split: if_splits)

lemma many1_suffix: "s' \<in> set (many1 p s) \<Longrightarrow> \<exists>t. s = t @ s'"
proof (induction s)
  case Nil
  then show ?case by simp
next
  case (Cons c cs)
  then have "s' = cs \<or> s' \<in> set (many1 p cs)" by (auto split: if_splits)
  then show ?case
  proof
    assume "s' = cs"
    then have "c # cs = [c] @ s'" by simp
    then show ?thesis ..
  next
    assume "s' \<in> set (many1 p cs)"
    from Cons.IH [OF this] obtain t where "cs = t @ s'" ..
    then have "c # cs = (c # t) @ s'" by simp
    then show ?thesis ..
  qed
qed

lemma matches_suffix: "(s', g') \<in> set (matches r (s, g)) \<Longrightarrow> \<exists>t. s = t @ s'"
proof (induction r arbitrary: s g s' g')
  case Eps
  then show ?case by simp
next
  case (Chars cs)
  then have "strip cs s = Some s'" by (auto split: option.splits)
  then have "s = cs @ s'" by (rule strip_Some)
  then show ?case ..
next
  case (Many1 cl)
  then have "s' \<in> set (many1 (in_cls cl) s)" by auto
  then show ?case by (rule many1_suffix)
next
  case (Exactly n cl)
  then have "s' = drop n s" by (auto split: if_splits)
  then have "s = take n s @ s'" by simp
  then show ?case ..
next
  case (Seq a b)
  then obtain s1 g1 where 1: "(s1, g1) \<in> set (matches a (s, g))"
    and 2: "(s', g') \<in> set (matches b (s1, g1))" by auto
  from Seq.IH(1) [OF 1] obtain t where t: "s = t @ s1" ..
  from Seq.IH(2) [OF 2] obtain u where u: "s1 = u @ s'" ..
  from t u have "s = (t @ u) @ s'" by simp
  then show ?case ..
next
  case (Alt a b)
  then have "(s', g') \<in> set (matches a (s, g)) \<or> (s', g') \<in> set (matches b (s, g))" by auto
  then show ?case
  proof
    assume "(s', g') \<in> set (matches a (s, g))"
    then show ?thesis by (rule Alt.IH(1))
  next
    assume "(s', g') \<in> set (matches b (s, g))"
    then show ?thesis by (rule Alt.IH(2))
  qed
next
  case (Opt a)
  then have "(s', g') \<in> set (matches a (s, g)) \<or> (s', g') = (s, g)" by auto
  then show ?case
  proof
    assume "(s', g') \<in> set (matches a (s, g))"
    then show ?thesis by (rule Opt.IH)
  next
    assume "(s', g') = (s, g)"
    then have "s = [] @ s'" by simp
    then show ?thesis ..
  qed
next
  case (Group i a)
  then obtain g1 where "(s', g1) \<in> set (matches a (s, g))" by auto
  then show ?case by (rule Group.IH)
qed

lemma seq_ends:
  assumes "\<And>s g s' g'. (s', g') \<in> set (matches b (s, g)) \<Longrightarrow> \<exists>m. s = m @ '' '' @ s'"
    and "(s', g') \<in> set (matches (Seq a b) (s, g))"
  shows "\<exists>m. s = m @ '' '' @ s'"
proof -
  from assms(2) obtain s1 g1 where 1: "(s1, g1) \<in> set (matches a (s, g))"
    and 2: "(s', g') \<in> set (matches b (s1, g1))" by auto
  from matches_suffix [OF 1] obtain t where t: "s = t @ s1" ..
  from assms(1) [OF 2] obtain m where m: "s1 = m @ '' '' @ s'" ..
  from t m have "s = (t @ m) @ '' '' @ s'" by simp
  then show ?thesis ..
qed

lemma last_space_ends:
  assumes "(s', g') \<in> set (matches (Seq (Chars '' '') Eps) (s, g))"
  shows "\<exists>m. s = m @ '' '' @ s'"
proof -
  from assms have "strip '' '' s = Some s'" by (auto split: option.splits)
  then have "s = [] @ '' '' @ s'" using strip_Some by fastforce
  then show ?thesis ..
qed

lemma version_pattern_ends:
  assumes "(s', g') \<in> set (matches version_pattern (s, g))"
  shows "\<exists>m. s = m @ '' '' @ s'"
  using assms unfolding version_pattern_def seq_def foldr.simps o_apply id_apply
  by (elim last_space_ends seq_ends [rotated])

lemma seq_chars:
  assumes "(s', g') \<in> set (matches (Seq (Chars cs) b) (s, g))"
  shows "\<exists>s1. s = cs @ s1 \<and> (s', g') \<in> set (matches b (s1, g))"
proof -
  from assms obtain s1 g1 where 1: "(s1, g1) \<in> set (matches (Chars cs) (s, g))"
    and 2: "(s', g') \<in> set (matches b (s1, g1))" by auto
  from 1 have "strip cs s = Some s1" and "g1 = g" by (auto split: option.splits)
  with 2 strip_Some show ?thesis by blast
qed

lemma many1_starts: "s' \<in> set (many1 p s) \<Longrightarrow> s \<noteq> [] \<and> p (hd s)"
  by (cases s) (auto split: if_splits)

lemma seq_digits_starts:
  assumes "(s', g') \<in> set (matches (Seq (Group i (Many1 Digit)) b) (s, g))"
  shows "s \<noteq> [] \<and> in_cls Digit (hd s)"
proof -
  from assms obtain s1 where "s1 \<in> set (many1 (in_cls Digit) s)" by auto
  then show ?thesis by (rule many1_starts)
qed

lemma version_pattern_shape:
  assumes "(s', g') \<in> set (matches version_pattern (s, g))"
  shows "\<exists>m. s = ''graphviz version '' @ m @ '' '' @ s' \<and> m \<noteq> []"
proof -
  note a = assms [unfolded version_pattern_def seq_def foldr.simps o_apply id_apply]
  from seq_chars [OF a] obtain s1 where s1: "s = ''graphviz version'' @ s1"
    and m1: "(s', g') \<in> set (matches
      (Seq (Chars '' '') (Seq (Group 1 (Many1 Digit)) (Seq (Chars ''.'') (Seq (Group 2 (Many1 Digit))
        (Seq (Opt (Seq (Chars ''.'') (Seq (Group 3 (Many1 Digit))
           (Seq (Opt (Alt (Seq (Chars ''~dev.'') (Seq (Exactly 8 Digit) (Seq (Chars ''.'')
                             (Seq (Exactly 4 Digit) Eps))))
                          (Seq (Chars ''.'') (Seq (Group 4 (Many1 Digit)) Eps)))) Eps))))
        (Seq (Chars '' '') Eps)))))) (s1, g))"
    by blast
  from seq_chars [OF m1] obtain s2 where s2: "s1 = '' '' @ s2"
    and m2: "(s', g') \<in> set (matches
      (Seq (Group 1 (Many1 Digit)) (Seq (Chars ''.'') (Seq (Group 2 (Many1 Digit))
        (Seq (Opt (Seq (Chars ''.'') (Seq (Group 3 (Many1 Digit))
           (Seq (Opt (Alt (Seq (Chars ''~dev.'') (Seq (Exactly 8 Digit) (Seq (Chars ''.'')
                             (Seq (Exactly 4 Digit) Eps))))
                          (Seq (Chars ''.'') (Seq (Group 4 (Many1 Digit)) Eps)))) Eps))))
        (Seq (Chars '' '') Eps))))) (s2, g))"
    by blast
  from seq_digits_starts [OF m2] have d: "s2 \<noteq> []" "in_cls Digit (hd s2)" by simp_all
  from m2 have "\<exists>m. s2 = m @ '' '' @ s'"
    by (elim last_space_ends seq_ends [rotated])
  then obtain m where m: "s2 = m @ '' '' @ s'" ..
  have "m \<noteq> []"
  proof
    assume "m = []"
    with m have "hd s2 = CHR '' ''" by simp
    with d(2) show False by (simp add: code_def)
  qed
  with s1 s2 m show ?thesis by simp
qed

lemma version_text_shape:
  assumes "version run_check = Inr r"
  shows "\<exists>proc a m b.
     run_check [DOT_BINARY, Str ''-V'']
       (no_kwargs\<lparr>stdout_kw := Some PIPE, stderr_kw := Some STDOUT, encoding := Some ''ascii''\<rparr>)
       = Inr proc
     \<and> stdout proc = a @ ''graphviz version '' @ m @ '' '' @ b \<and> m \<noteq> []"
proof -
  from assms obtain proc :: completed_process and g
    where p: "run_check [DOT_BINARY, Str ''-V'']
       (no_kwargs\<lparr>stdout_kw := Some PIPE, stderr_kw := Some STDOUT, encoding := Some ''ascii''\<rparr>)
       = Inr proc"
      and g: "search version_pattern (stdout proc) = Some g"
    by (auto simp: version_def Let_def split: sum.splits option.splits)
  from search_Some [OF g] obtain k s' where
    "(s', g) \<in> set (matches version_pattern (drop k (stdout proc), Map.empty))" by blast
  from version_pattern_shape [OF this] obtain m where
    m: "drop k (stdout proc) = ''graphviz version '' @ m @ '' '' @ s'" and ne: "m \<noteq> []" by blast
  have "stdout proc = take k (stdout proc) @ drop k (stdout proc)" by simp
  with m have "stdout proc = take k (stdout proc) @ ''graphviz version '' @ m @ '' '' @ s'" by simp
  with p ne show ?thesis by blast
qed

text \<open>
  Claim C9. The pattern ends with a space, so a text that holds a well-formed version
  and ends right after it is not parsed: on \<open>dot - graphviz version 2.44.1\<close>
  \<open>version\<close> fails with the parse error, and with one space more it returns
  \<open>(2, 44, 1)\<close>. In general, whenever \<open>version\<close> succeeds, the text that \<open>run_check\<close>
  returned holds \<open>graphviz version\<close>, a space, a non-empty version and one more space.
\<close>

theorem version_needs_trailing_space:
  "version (mocked ''dot - graphviz version 2.44.1'') =
     Inl (RuntimeError (''cannot parse '' @ repr_list [DOT_BINARY, Str ''-V''] @ '' output: ''
                         @ repr ''dot - graphviz version 2.44.1''))
   \<and> version (mocked ''dot - graphviz version 2.44.1 '') = Inr [2, 44, 1]
   \<and> (version run_check = Inr r \<longrightarrow>
        (\<exists>proc a m b.
           run_check [DOT_BINARY, Str ''-V'']
             (no_kwargs\<lparr>stdout_kw := Some PIPE, stderr_kw := Some STDOUT,
                encoding := Some ''ascii''\<rparr>) = Inr proc
           \<and> stdout proc = a @ ''graphviz version '' @ m @ '' '' @ b \<and> m \<noteq> []))"
proof -
  have 1: "version (mocked ''dot - graphviz version 2.44.1'') =
     Inl (RuntimeError (''cannot parse '' @ repr_list [DOT_BINARY, Str ''-V''] @ '' output: ''
                         @ repr ''dot - graphviz version 2.44.1''))"
    by code_simp
  have 2: "version (mocked ''dot - graphviz version 2.44.1 '') = Inr [2, 44, 1]"
    by code_simp
  have 3: "version run_check = Inr r \<longrightarrow>
        (\<exists>proc a m b.
           run_check [DOT_BINARY, Str ''-V'']
             (no_kwargs\<lparr>stdout_kw := Some PIPE, stderr_kw := Some STDOUT,
                encoding := Some ''ascii''\<rparr>) = Inr proc
           \<and> stdout proc = a @ ''graphviz version '' @ m @ '' '' @ b \<and> m \<noteq> [])"
    using version_text_shape by blast
  from 1 2 3 show ?thesis by blast
qed

theorem version_needs_trailing_space_witness:
  "version (mocked ''dot - graphviz version 2.44.1 '') = Inr [2, 44, 1]
   \<and> (\<exists>a m b. ''dot - graphviz version 2.44.1 '' = a @ ''graphviz version '' @ m @ '' '' @ b
         \<and> m \<noteq> [])"
proof -
  have c: "version (mocked ''dot - graphviz version 2.44.1 '') = Inr [2, 44, 1]"
    by code_simp
  from version_needs_trailing_space
    [where run_check = "mocked ''dot - graphviz version 2.44.1 ''"
       and r = "[2, 44, 1]"] c
  obtain proc :: completed_process and a m b where
    p: "Inr \<lparr>stdout = ''dot - graphviz version 2.44.1 ''\<rparr> = (Inr proc :: error + completed_process)"
    and s: "stdout proc = a @ ''graphviz version '' @ m @ '' '' @ b" and m: "m \<noteq> []"
    unfolding mocked_def by blast
  from p have "stdout proc = ''dot - graphviz version 2.44.1 ''" by auto
  with s m have "''dot - graphviz version 2.44.1 '' = a @ ''graphviz version '' @ m @ '' '' @ b
      \<and> m \<noteq> []" by simp
  then have "\<exists>a m b. ''dot - graphviz version 2.44.1 '' = a @ ''graphviz version '' @ m @ '' '' @ b
         \<and> m \<noteq> []" by blast
  with c show ?thesis by blast
qed

end
